theory Spec2Isabelle
  imports Complex_Main "HOL-Library.Word"
begin

section \<open>Artificial Senses: the capture-to-publish pipeline\<close>

text \<open>
  A shallow embedding of \<^verbatim>\<open>segmentation.py\<close>, \<^verbatim>\<open>camera.py\<close> and
  \<^verbatim>\<open>processor.py\<close>. Python exceptions are values of \<open>py_error\<close>; a function that can
  raise returns \<open>py_error + 'a\<close> with \<open>Inl\<close> the exception. Python floats are modelled
  as exact rationals (rounding of IEEE doubles is not modelled); \<open>int(x)\<close> on a float
  truncates towards zero. The external libraries (OpenCV, the RealSense SDK, the YOLO
  model) appear as function-valued fields of the objects that own them, so that every
  statement below holds for whatever those libraries compute, or as small models of the
  documented behaviour of the one call that matters (named where they are introduced).
\<close>

subsection \<open>Exceptions and Python primitives\<close>

datatype py_error = IndexError | KeyError | ValueError | ZeroDivisionError
  | CvError | RuntimeError | QueueEmpty

definition py_int :: "rat \<Rightarrow> int" where
  \<comment> \<open>\<^verbatim>\<open>int(x)\<close> for a float: truncation towards zero.\<close>
  "py_int x = (if 0 \<le> x then \<lfloor>x\<rfloor> else \<lceil>x\<rceil>)"

definition py_truediv :: "rat \<Rightarrow> rat \<Rightarrow> py_error + rat" where
  \<comment> \<open>\<^verbatim>\<open>a / b\<close> on floats raises ZeroDivisionError when \<open>b\<close> is zero.\<close>
  "py_truediv a b = (if b = 0 then Inl ZeroDivisionError else Inr (a / b))"

definition pop :: "'a list \<Rightarrow> py_error + 'a" where
  \<comment> \<open>\<^verbatim>\<open>xs.pop()\<close>: the last element; IndexError on an empty list.\<close>
  "pop xs = (case rev xs of [] \<Rightarrow> Inl IndexError | x # _ \<Rightarrow> Inr x)"

subsection \<open>Images\<close>

text \<open>
  An image is a \<open>H \<times> W \<times> 3\<close> array of \<^verbatim>\<open>uint8\<close>: a list of rows of three-channel
  pixels. The point-cloud colour array is \<open>H \<times> W \<times> 4\<close>.
\<close>

type_synonym uint8 = "8 word"
type_synonym pixel3 = "uint8 \<times> uint8 \<times> uint8"
type_synonym pixel4 = "uint8 \<times> uint8 \<times> uint8 \<times> uint8"
type_synonym image = "pixel3 list list"
type_synonym contour = "(int \<times> int) list"

definition np_zeros_like :: "image \<Rightarrow> image" where
  \<comment> \<open>\<^verbatim>\<open>np.zeros(color_image.shape, np.uint8)\<close>\<close>
  "np_zeros_like img = map (map (\<lambda>_. (0, 0, 0))) img"

definition cvRound :: "rat \<Rightarrow> int" where
  \<comment> \<open>OpenCV's rounding to the nearest integer, ties to even.\<close>
  "cvRound x =
     (let f = \<lfloor>x\<rfloor>; d = x - of_int f
      in if d < 1 / 2 then f else if 1 / 2 < d then f + 1
         else if even f then f else f + 1)"

definition saturate_u8 :: "int \<Rightarrow> uint8" where
  \<comment> \<open>\<^verbatim>\<open>saturate_cast<uchar>\<close>\<close>
  "saturate_u8 v = (if v < 0 then 0 else if 255 < v then 255 else word_of_int v)"

definition blend_channel :: "rat \<Rightarrow> rat \<Rightarrow> rat \<Rightarrow> uint8 \<Rightarrow> uint8 \<Rightarrow> uint8" where
  "blend_channel alpha beta gamma a b =
     saturate_u8 (cvRound (of_nat (unat a) * alpha + of_nat (unat b) * beta + gamma))"

definition blend_pixel :: "rat \<Rightarrow> rat \<Rightarrow> rat \<Rightarrow> pixel3 \<Rightarrow> pixel3 \<Rightarrow> pixel3" where
  "blend_pixel alpha beta gamma p q =
     (case p of (p0, p1, p2) \<Rightarrow> case q of (q0, q1, q2) \<Rightarrow>
        (blend_channel alpha beta gamma p0 q0,
         blend_channel alpha beta gamma p1 q1,
         blend_channel alpha beta gamma p2 q2))"

definition addWeighted :: "image \<Rightarrow> rat \<Rightarrow> image \<Rightarrow> rat \<Rightarrow> rat \<Rightarrow> py_error + image" where
  \<comment> \<open>\<^verbatim>\<open>cv2.addWeighted(src1, alpha, src2, beta, gamma)\<close>: the saturated per-channel
      sum \<open>src1 * alpha + src2 * beta + gamma\<close>; arrays of different shapes are an error.\<close>
  "addWeighted src1 alpha src2 beta gamma =
     (if map length src1 = map length src2
      then Inr (map2 (map2 (blend_pixel alpha beta gamma)) src1 src2)
      else Inl CvError)"

subsection \<open>Depth frames\<close>

record rs_depth_frame =
  df_width :: nat
  df_height :: nat
  df_data :: "nat \<Rightarrow> nat \<Rightarrow> 16 word"  \<comment> \<open>the raw z16 sample at column \<open>x\<close>, row \<open>y\<close>\<close>
  df_units :: rat                     \<comment> \<open>metres per raw unit\<close>

definition get_distance :: "rs_depth_frame \<Rightarrow> int \<Rightarrow> int \<Rightarrow> py_error + rat" where
  \<comment> \<open>\<^verbatim>\<open>depth_frame.get_distance(x, y)\<close>: the depth in metres at a pixel; the SDK
      rejects coordinates outside the frame.\<close>
  "get_distance df x y =
     (if 0 \<le> x \<and> x < int (df_width df) \<and> 0 \<le> y \<and> y < int (df_height df)
      then Inr (of_nat (unat (df_data df (nat x) (nat y))) * df_units df)
      else Inl RuntimeError)"

subsection \<open>Segmentation (segmentation.py)\<close>

text \<open>
  One detection \<open>c\<close> of a YOLO result: the class-name table \<^verbatim>\<open>c.names\<close>, the class
  ids \<^verbatim>\<open>c.boxes.cls.tolist()\<close> and the mask polygons \<^verbatim>\<open>c.masks.xy\<close>.
\<close>

record detection =
  names :: "nat \<rightharpoonup> string"
  cls :: "nat list"
  masks_xy :: "(rat \<times> rat) list list"

record cv_moments =
  m00 :: rat
  m10 :: rat
  m01 :: rat

text \<open>
  The two OpenCV calls whose result depends on geometry, \<^verbatim>\<open>cv2.drawContours\<close> (filled,
  colour \<open>(0, 0, 255)\<close>) and \<^verbatim>\<open>cv2.moments\<close>, are parameters of the model.
\<close>

record cv2 =
  drawContours :: "image \<Rightarrow> contour \<Rightarrow> image"
  moments :: "contour \<Rightarrow> cv_moments"

record Segmentation =
  include_labels :: "string list"
  yolo_predict :: "image \<Rightarrow> detection list list"
    \<comment> \<open>what the generator returned by \<^verbatim>\<open>predict(..., stream=True)\<close> yields\<close>

type_synonym centroid = "int \<times> int \<times> rat"

definition generator_truthy :: "'a list \<Rightarrow> bool" where
  \<comment> \<open>\<^verbatim>\<open>if results:\<close> on a generator object: a generator defines neither
      \<^verbatim>\<open>__bool__\<close> nor \<^verbatim>\<open>__len__\<close>, so it is true whatever it will yield.\<close>
  "generator_truthy results = True"

definition det_label :: "detection \<Rightarrow> py_error + string" where
  \<comment> \<open>\<^verbatim>\<open>c.names[c.boxes.cls.tolist().pop()]\<close>\<close>
  "det_label c =
     (case pop (cls c) of Inl e \<Rightarrow> Inl e
      | Inr k \<Rightarrow> (case names c k of None \<Rightarrow> Inl KeyError | Some l \<Rightarrow> Inr l))"

definition det_contour :: "detection \<Rightarrow> py_error + contour" where
  \<comment> \<open>\<^verbatim>\<open>c.masks.xy.pop().astype(np.int32).reshape(-1, 1, 2)\<close>\<close>
  "det_contour c =
     (case pop (masks_xy c) of Inl e \<Rightarrow> Inl e
      | Inr poly \<Rightarrow> Inr (map (\<lambda>(x, y). (py_int x, py_int y)) poly))"

fun draw_loop ::
  "cv2 \<Rightarrow> string list \<Rightarrow> detection list \<Rightarrow> image \<Rightarrow> contour list
     \<Rightarrow> py_error + (image \<times> contour list)" where
  "draw_loop cv labels [] segmented_image all_contours = Inr (segmented_image, all_contours)"
| "draw_loop cv labels (c # cs) segmented_image all_contours =
     (case det_label c of Inl e \<Rightarrow> Inl e
      | Inr label \<Rightarrow>
          if label \<notin> set labels then draw_loop cv labels cs segmented_image all_contours
          else (case det_contour c of Inl e \<Rightarrow> Inl e
                | Inr contour \<Rightarrow>
                    draw_loop cv labels cs (drawContours cv segmented_image contour)
                      (all_contours @ [contour])))"

fun centroid_loop ::
  "cv2 \<Rightarrow> rs_depth_frame \<Rightarrow> contour list \<Rightarrow> centroid list \<Rightarrow> py_error + centroid list" where
  "centroid_loop cv depth_frame [] centroids = Inr centroids"
| "centroid_loop cv depth_frame (contour # rest) centroids =
     (if m00 (moments cv contour) \<noteq> 0
      then (case get_distance depth_frame
                   (py_int (m10 (moments cv contour) / m00 (moments cv contour)))
                   (py_int (m01 (moments cv contour) / m00 (moments cv contour))) of
              Inl e \<Rightarrow> Inl e
            | Inr distance \<Rightarrow>
                centroid_loop cv depth_frame rest
                  (centroids @
                    [(py_int (m10 (moments cv contour) / m00 (moments cv contour)),
                      py_int (m01 (moments cv contour) / m00 (moments cv contour)),
                      distance)]))
      else centroid_loop cv depth_frame rest centroids)"

definition process ::
  "cv2 \<Rightarrow> Segmentation \<Rightarrow> image \<Rightarrow> rs_depth_frame \<Rightarrow> py_error + (image \<times> centroid list)" where
  "process cv seg color_image depth_frame =
     (if generator_truthy (yolo_predict seg color_image)
      then (case yolo_predict seg color_image of
              [] \<Rightarrow> Inl IndexError
            | result # _ \<Rightarrow>
                (case draw_loop cv (include_labels seg) result (np_zeros_like color_image) [] of
                   Inl e \<Rightarrow> Inl e
                 | Inr (drawn, all_contours) \<Rightarrow>
                     (case addWeighted color_image 1 drawn (1 / 2) 0 of
                        Inl e \<Rightarrow> Inl e
                      | Inr segmented_image \<Rightarrow>
                          (case centroid_loop cv depth_frame all_contours [] of
                             Inl e \<Rightarrow> Inl e
                           | Inr centroids \<Rightarrow> Inr (segmented_image, centroids)))))
      else Inr (np_zeros_like color_image, []))"

text \<open>
  The moments \<^verbatim>\<open>cv2.moments\<close> computes for a contour (a closed polygon with integer
  vertices) by Green's formula, in exact arithmetic: \<open>m00\<close> is the enclosed area, and the
  sign is normalised so that the area is not negative. It instantiates the
  \<open>moments\<close> parameter in the concrete examples.
\<close>

fun green_sums :: "int \<times> int \<Rightarrow> contour \<Rightarrow> int \<times> int \<times> int" where
  "green_sums prev [] = (0, 0, 0)"
| "green_sums prev (pt # rest) =
     (case green_sums pt rest of (a00, a10, a01) \<Rightarrow>
        (a00 + (fst prev * snd pt - fst pt * snd prev),
         a10 + (fst prev * snd pt - fst pt * snd prev) * (fst prev + fst pt),
         a01 + (fst prev * snd pt - fst pt * snd prev) * (snd prev + snd pt)))"

definition contour_moments :: "contour \<Rightarrow> cv_moments" where
  "contour_moments pts =
     (if pts = [] then \<lparr>m00 = 0, m10 = 0, m01 = 0\<rparr>
      else (case green_sums (last pts) pts of (a00, a10, a01) \<Rightarrow>
        if a00 = 0 then \<lparr>m00 = 0, m10 = 0, m01 = 0\<rparr>
        else if 0 < a00
          then \<lparr>m00 = of_int a00 / 2, m10 = of_int a10 / 6, m01 = of_int a01 / 6\<rparr>
          else \<lparr>m00 = - of_int a00 / 2, m10 = - of_int a10 / 6, m01 = - of_int a01 / 6\<rparr>))"

subsection \<open>Camera (camera.py)\<close>

type_synonym vertex = "rat \<times> rat \<times> rat"

record rs_color_frame =
  cf_data :: image

text \<open>
  A composite frame of the SDK. \<^verbatim>\<open>get_depth_frame()\<close> and \<^verbatim>\<open>get_color_frame()\<close>
  return a frame object that is false when the composite holds no such frame.
\<close>

record rs_frames =
  get_depth_frame :: "rs_depth_frame option"
  get_color_frame :: "rs_color_frame option"

text \<open>
  The SDK pipeline: whether it is streaming, the composite frames the device delivers
  (\<open>source i\<close> is the \<open>i\<close>-th; \<open>None\<close> when none arrives before the SDK's timeout) and
  how many have been handed out. \<^verbatim>\<open>wait_for_frames\<close> and \<^verbatim>\<open>stop\<close> follow the SDK's
  documentation: both raise on a pipeline that is not started.
\<close>

record rs_pipeline =
  started :: bool
  source :: "nat \<Rightarrow> rs_frames option"
  delivered :: nat

definition wait_for_frames :: "rs_pipeline \<Rightarrow> py_error + (rs_frames \<times> rs_pipeline)" where
  "wait_for_frames pl =
     (if \<not> started pl then Inl RuntimeError
      else (case source pl (delivered pl) of
              None \<Rightarrow> Inl RuntimeError
            | Some frames \<Rightarrow> Inr (frames, pl\<lparr>delivered := Suc (delivered pl)\<rparr>)))"

definition pipeline_stop :: "rs_pipeline \<Rightarrow> py_error + rs_pipeline" where
  "pipeline_stop pl =
     (if started pl then Inr (pl\<lparr>started := False\<rparr>) else Inl RuntimeError)"

record Frameset =
  fs_depth_frame :: rs_depth_frame
  fs_depth_image :: image
  fs_color_image :: image
  fs_pointcloud_vertexes :: "vertex list list"
  fs_pointcloud_colors :: "pixel4 list list"

record RealSenseCamera =
  pipeline :: rs_pipeline
  align_process :: "rs_frames \<Rightarrow> rs_frames"
  colorize :: "rs_depth_frame \<Rightarrow> image"
  pointcloud_calculate :: "rs_depth_frame \<Rightarrow> vertex list"
  depth_scale :: rat
  depth_width :: nat
  depth_height :: nat

definition np_ones_255 :: "nat \<Rightarrow> nat \<Rightarrow> uint8 list list" where
  \<comment> \<open>\<^verbatim>\<open>np.ones((h, w, 1), dtype=np.uint8) * 255\<close>\<close>
  "np_ones_255 h w = replicate h (replicate w 255)"

definition np_concatenate_last :: "image \<Rightarrow> uint8 list list \<Rightarrow> py_error + pixel4 list list" where
  \<comment> \<open>\<^verbatim>\<open>np.concatenate((a, b), axis=-1)\<close> of an \<open>H \<times> W \<times> 3\<close> and an \<open>H \<times> W \<times> 1\<close>
      array; ValueError when the leading dimensions differ.\<close>
  "np_concatenate_last a b =
     (if map length a = map length b
      then Inr (map2 (map2 (\<lambda>(c0, c1, c2) c3. (c0, c1, c2, c3))) a b)
      else Inl ValueError)"

definition np_reshape :: "nat \<Rightarrow> nat \<Rightarrow> 'a list \<Rightarrow> py_error + 'a list list" where
  \<comment> \<open>\<^verbatim>\<open>.reshape(h, w, 3)\<close> of an \<open>N \<times> 3\<close> array; ValueError unless \<open>N = h * w\<close>.\<close>
  "np_reshape h w xs =
     (if length xs = h * w
      then Inr (map (\<lambda>r. take w (drop (r * w) xs)) [0..<h])
      else Inl ValueError)"

definition np_flipud :: "'a list \<Rightarrow> 'a list" where
  "np_flipud rows = rev rows"

definition make_frameset ::
  "RealSenseCamera \<Rightarrow> rs_depth_frame \<Rightarrow> rs_color_frame \<Rightarrow> py_error + Frameset" where
  \<comment> \<open>The straight-line part of \<^verbatim>\<open>get_frames\<close> after the validity test.\<close>
  "make_frameset cam depth_frame color_frame =
     (case np_concatenate_last (colorize cam depth_frame)
             (np_ones_255 (depth_height cam) (depth_width cam)) of
        Inl e \<Rightarrow> Inl e
      | Inr colors \<Rightarrow>
          (case np_reshape (depth_height cam) (depth_width cam)
                  (pointcloud_calculate cam depth_frame) of
             Inl e \<Rightarrow> Inl e
           | Inr vertexes \<Rightarrow>
               Inr \<lparr>fs_depth_frame = depth_frame,
                    fs_depth_image = np_flipud (colorize cam depth_frame),
                    fs_color_image = cf_data color_frame,
                    fs_pointcloud_vertexes = vertexes,
                    fs_pointcloud_colors = colors\<rparr>))"

text \<open>
  \<^verbatim>\<open>get_frames\<close> is a \<^verbatim>\<open>while True\<close> loop: it may run forever, which is the value
  \<open>None\<close>. The camera is returned with its pipeline advanced.
\<close>

partial_function (option) get_frames ::
  "RealSenseCamera \<Rightarrow> (py_error + (Frameset \<times> RealSenseCamera)) option" where
  "get_frames cam =
     (case wait_for_frames (pipeline cam) of
        Inl e \<Rightarrow> Some (Inl e)
      | Inr r \<Rightarrow>
          (case get_depth_frame (align_process cam (fst r)) of
             None \<Rightarrow> get_frames (cam\<lparr>pipeline := snd r\<rparr>)
           | Some depth_frame \<Rightarrow>
               (case get_color_frame (align_process cam (fst r)) of
                  None \<Rightarrow> get_frames (cam\<lparr>pipeline := snd r\<rparr>)
                | Some color_frame \<Rightarrow>
                    (case make_frameset cam depth_frame color_frame of
                       Inl e \<Rightarrow> Some (Inl e)
                     | Inr frameset \<Rightarrow> Some (Inr (frameset, cam\<lparr>pipeline := snd r\<rparr>))))))"

definition camera_stop :: "RealSenseCamera \<Rightarrow> py_error + RealSenseCamera" where
  \<comment> \<open>\<^verbatim>\<open>RealSenseCamera.stop\<close>: \<^verbatim>\<open>self._pipeline.stop()\<close>\<close>
  "camera_stop cam =
     (case pipeline_stop (pipeline cam) of
        Inl e \<Rightarrow> Inl e
      | Inr pl \<Rightarrow> Inr (cam\<lparr>pipeline := pl\<rparr>))"

subsection \<open>Processor (processor.py)\<close>

record ImageData =
  id_width :: nat
  id_height :: nat
  id_format :: string
  id_data :: "uint8 list"

record Dataset =
  ds_color_image :: ImageData
  ds_depth_paletted_image :: ImageData
  ds_segmented_image :: ImageData
  ds_centroids :: "(int \<times> int \<times> int) list"
  ds_pointcloud_vertexes :: "vertex list list"
  ds_pointcloud_colors :: "pixel4 list list"

text \<open>
  \<^verbatim>\<open>queue.Queue()\<close> with the default \<^verbatim>\<open>maxsize=0\<close>: an unbounded first-in first-out
  queue, oldest element first. \<^verbatim>\<open>put\<close> never blocks on it.
\<close>

definition queue_put :: "'a list \<Rightarrow> 'a \<Rightarrow> 'a list" where
  "queue_put q x = q @ [x]"

definition queue_empty :: "'a list \<Rightarrow> bool" where
  "queue_empty q = (q = [])"

definition queue_get_nowait :: "'a list \<Rightarrow> py_error + ('a \<times> 'a list)" where
  "queue_get_nowait q = (case q of [] \<Rightarrow> Inl QueueEmpty | x # rest \<Rightarrow> Inr (x, rest))"

record Processor =
  camera :: RealSenseCamera
  segmentation :: Segmentation
  running :: bool
  queue :: "Dataset list"

definition get_dataset :: "Processor \<Rightarrow> py_error + (Dataset option \<times> Processor)" where
  "get_dataset p =
     (if queue_empty (queue p) then Inr (None, p)
      else (case queue_get_nowait (queue p) of
              Inl e \<Rightarrow> Inl e
            | Inr (d, rest) \<Rightarrow> Inr (Some d, p\<lparr>queue := rest\<rparr>)))"

definition cvtColor_BGR2RGB :: "image \<Rightarrow> image" where
  "cvtColor_BGR2RGB img = map (map (\<lambda>(b, g, r). (r, g, b))) img"

definition cv_flip0 :: "image \<Rightarrow> image" where
  \<comment> \<open>\<^verbatim>\<open>cv2.flip(image, 0)\<close>: around the horizontal axis\<close>
  "cv_flip0 img = rev img"

definition tobytes :: "image \<Rightarrow> uint8 list" where
  "tobytes img = concat (map (\<lambda>row. concat (map (\<lambda>(c0, c1, c2). [c0, c1, c2]) row)) img)"

definition shape0 :: "image \<Rightarrow> nat" where
  "shape0 img = length img"

definition shape1 :: "image \<Rightarrow> nat" where
  \<comment> \<open>the width of an image that has at least one row\<close>
  "shape1 img = (case img of [] \<Rightarrow> 0 | row # _ \<Rightarrow> length row)"

definition nparray_to_cv2img :: "image \<Rightarrow> ImageData" where
  "nparray_to_cv2img img =
     \<lparr>id_width = shape1 img, id_height = shape0 img, id_format = ''RGB'',
      id_data = tobytes img\<rparr>"

definition cv2img_to_pyglet :: "image \<Rightarrow> ImageData" where
  "cv2img_to_pyglet img =
     \<lparr>id_width = shape1 (cv_flip0 (cvtColor_BGR2RGB img)),
      id_height = shape0 (cv_flip0 (cvtColor_BGR2RGB img)),
      id_format = ''RGB'',
      id_data = tobytes (cv_flip0 (cvtColor_BGR2RGB img))\<rparr>"

fun centroids_mm :: "rat \<Rightarrow> centroid list \<Rightarrow> py_error + (int \<times> int \<times> int) list" where
  \<comment> \<open>\<^verbatim>\<open>[(c[0], c[1], int(c[2] / depth_scale)) for c in centroids]\<close>\<close>
  "centroids_mm scale [] = Inr []"
| "centroids_mm scale (c # cs) =
     (case py_truediv (snd (snd c)) scale of
        Inl e \<Rightarrow> Inl e
      | Inr q \<Rightarrow>
          (case centroids_mm scale cs of
             Inl e \<Rightarrow> Inl e
           | Inr rest \<Rightarrow> Inr ((fst c, fst (snd c), py_int q) # rest)))"

definition publish :: "Processor \<Rightarrow> Dataset \<Rightarrow> Processor" where
  \<comment> \<open>\<^verbatim>\<open>self._queue.put(dataset)\<close>\<close>
  "publish p d = p\<lparr>queue := queue_put (queue p) d\<rparr>"

definition process_frame :: "cv2 \<Rightarrow> Processor \<Rightarrow> (py_error + Processor) option" where
  \<comment> \<open>\<^verbatim>\<open>Processor._process_frame\<close>; \<open>None\<close> when \<^verbatim>\<open>get_frames\<close> never returns\<close>
  "process_frame cv p =
     (case get_frames (camera p) of
        None \<Rightarrow> None
      | Some (Inl e) \<Rightarrow> Some (Inl e)
      | Some (Inr (frameset, cam)) \<Rightarrow>
          Some (case process cv (segmentation p) (fs_color_image frameset)
                       (fs_depth_frame frameset) of
                  Inl e \<Rightarrow> Inl e
                | Inr (segmented_image, centroids) \<Rightarrow>
                    (case centroids_mm (depth_scale cam) centroids of
                       Inl e \<Rightarrow> Inl e
                     | Inr cs \<Rightarrow>
                         Inr (publish (p\<lparr>camera := cam\<rparr>)
                               \<lparr>ds_color_image = cv2img_to_pyglet (fs_color_image frameset),
                                ds_depth_paletted_image =
                                  nparray_to_cv2img (fs_depth_image frameset),
                                ds_segmented_image = cv2img_to_pyglet segmented_image,
                                ds_centroids = cs,
                                ds_pointcloud_vertexes = fs_pointcloud_vertexes frameset,
                                ds_pointcloud_colors = fs_pointcloud_colors frameset\<rparr>))))"

text \<open>A sequence of operations on the handoff by the producer and the consumer.\<close>

datatype handoff_op = Publish Dataset | Take

fun is_publish :: "handoff_op \<Rightarrow> bool" where
  "is_publish (Publish d) = True"
| "is_publish Take = False"

fun handoff_run ::
  "handoff_op list \<Rightarrow> Processor \<Rightarrow> py_error + (Dataset option list \<times> Processor)" where
  "handoff_run [] p = Inr ([], p)"
| "handoff_run (Publish d # ops) p = handoff_run ops (publish p d)"
| "handoff_run (Take # ops) p =
     (case get_dataset p of
        Inl e \<Rightarrow> Inl e
      | Inr (taken, p') \<Rightarrow>
          (case handoff_run ops p' of
             Inl e \<Rightarrow> Inl e
           | Inr (more_taken, p'') \<Rightarrow> Inr (taken # more_taken, p'')))"

subsection \<open>The processor thread and \<^verbatim>\<open>stop\<close>\<close>

text \<open>
  \<^verbatim>\<open>run\<close> executes on the processor thread, \<^verbatim>\<open>start\<close> and \<^verbatim>\<open>stop\<close> on the main
  thread. The two threads interleave statement by statement; a schedule is a list of
  events, and an event that cannot happen in a state (a blocked \<^verbatim>\<open>join\<close>, a step of a
  thread that is not running) gives \<open>None\<close>. \<^verbatim>\<open>Thread.join\<close> returns once the thread
  has terminated and raises for a thread that was never started; an exception that
  escapes \<^verbatim>\<open>run\<close> terminates the thread. The state counts the calls made to
  \<^verbatim>\<open>camera.get_frames\<close> and to \<^verbatim>\<open>segmentation.process\<close>.
\<close>

datatype thread_pc =
    T_unstarted        \<comment> \<open>\<^verbatim>\<open>start\<close> not called yet\<close>
  | T_run_entry        \<comment> \<open>before \<^verbatim>\<open>self._running = True\<close>\<close>
  | T_while_test       \<comment> \<open>before the test of \<^verbatim>\<open>while self._running\<close>\<close>
  | T_in_get_frames    \<comment> \<open>inside \<^verbatim>\<open>self._camera.get_frames()\<close>\<close>
  | T_in_segmentation  \<comment> \<open>inside \<^verbatim>\<open>self._segmentation.process(...)\<close>\<close>
  | T_put              \<comment> \<open>before the conversion of the centroids and \<^verbatim>\<open>self._queue.put\<close>\<close>
  | T_terminated       \<comment> \<open>\<^verbatim>\<open>run\<close> has returned or raised\<close>

datatype stop_pc =
    S_not_in_stop      \<comment> \<open>the main thread is not executing \<^verbatim>\<open>stop\<close>\<close>
  | S_joining          \<comment> \<open>after \<^verbatim>\<open>self._running = False\<close>, in \<^verbatim>\<open>self.join()\<close>\<close>
  | S_returned         \<comment> \<open>\<^verbatim>\<open>stop\<close> has returned\<close>
  | S_raised           \<comment> \<open>\<^verbatim>\<open>join\<close> raised RuntimeError\<close>

record world =
  running_flag :: bool
  thread :: thread_pc
  stopper :: stop_pc
  get_frames_calls :: nat
  segmentation_calls :: nat

datatype event =
    Start              \<comment> \<open>the main thread calls \<^verbatim>\<open>start()\<close>\<close>
  | Thread_step bool   \<comment> \<open>the processor thread executes its next statement; the flag says
                           whether a pending call returns (or raises)\<close>
  | Stop_set_flag      \<comment> \<open>the main thread enters \<^verbatim>\<open>stop\<close>: \<^verbatim>\<open>self._running = False\<close>\<close>
  | Stop_join          \<comment> \<open>\<^verbatim>\<open>self.join()\<close> completes\<close>

definition initial_world :: world where
  "initial_world =
     \<lparr>running_flag = False, thread = T_unstarted, stopper = S_not_in_stop,
      get_frames_calls = 0, segmentation_calls = 0\<rparr>"

fun thread_step :: "bool \<Rightarrow> world \<Rightarrow> world option" where
  "thread_step ok w =
     (case thread w of
        T_unstarted \<Rightarrow> None
      | T_run_entry \<Rightarrow> Some (w\<lparr>running_flag := True, thread := T_while_test\<rparr>)
      | T_while_test \<Rightarrow>
          if running_flag w
          then Some (w\<lparr>thread := T_in_get_frames,
                       get_frames_calls := Suc (get_frames_calls w)\<rparr>)
          else Some (w\<lparr>thread := T_terminated\<rparr>)
      | T_in_get_frames \<Rightarrow>
          if ok
          then Some (w\<lparr>thread := T_in_segmentation,
                       segmentation_calls := Suc (segmentation_calls w)\<rparr>)
          else Some (w\<lparr>thread := T_terminated\<rparr>)
      | T_in_segmentation \<Rightarrow>
          if ok then Some (w\<lparr>thread := T_put\<rparr>) else Some (w\<lparr>thread := T_terminated\<rparr>)
      | T_put \<Rightarrow>
          if ok then Some (w\<lparr>thread := T_while_test\<rparr>) else Some (w\<lparr>thread := T_terminated\<rparr>)
      | T_terminated \<Rightarrow> None)"

fun fire :: "event \<Rightarrow> world \<Rightarrow> world option" where
  "fire Start w =
     (if thread w = T_unstarted \<and> stopper w \<noteq> S_joining
      then Some (w\<lparr>thread := T_run_entry\<rparr>) else None)"
| "fire (Thread_step ok) w = thread_step ok w"
| "fire Stop_set_flag w =
     (if stopper w = S_not_in_stop \<or> stopper w = S_returned
      then Some (w\<lparr>running_flag := False, stopper := S_joining\<rparr>) else None)"
| "fire Stop_join w =
     (if stopper w \<noteq> S_joining then None
      else if thread w = T_unstarted then Some (w\<lparr>stopper := S_raised\<rparr>)
      else if thread w = T_terminated then Some (w\<lparr>stopper := S_returned\<rparr>)
      else None)"

fun exec :: "event list \<Rightarrow> world \<Rightarrow> world option" where
  "exec [] w = Some w"
| "exec (e # es) w = (case fire e w of None \<Rightarrow> None | Some w' \<Rightarrow> exec es w')"

subsection \<open>A concrete scene\<close>

text \<open>
  A \<open>2 \<times> 2\<close> camera whose first composite frame has no depth frame and whose later
  ones are complete; the model detects one person whose mask is the square with
  corners \<open>(0, 0)\<close> and \<open>(2, 2)\<close>, which covers the whole image. The depth is 1500 raw
  units of one millimetre everywhere.
\<close>

definition example_depth_frame :: rs_depth_frame where
  "example_depth_frame =
     \<lparr>df_width = 2, df_height = 2, df_data = (\<lambda>x y. 1500), df_units = 1 / 1000\<rparr>"

definition example_color_image :: image where
  "example_color_image = [[(10, 20, 30), (40, 50, 60)], [(70, 80, 90), (100, 110, 120)]]"

definition example_depth_colormap :: image where
  "example_depth_colormap = [[(1, 2, 3), (4, 5, 6)], [(7, 8, 9), (10, 11, 12)]]"

definition example_frames_complete :: rs_frames where
  "example_frames_complete =
     \<lparr>get_depth_frame = Some example_depth_frame,
      get_color_frame = Some \<lparr>cf_data = example_color_image\<rparr>\<rparr>"

definition example_frames_no_depth :: rs_frames where
  "example_frames_no_depth =
     \<lparr>get_depth_frame = None,
      get_color_frame = Some \<lparr>cf_data = example_color_image\<rparr>\<rparr>"

definition example_pipeline :: rs_pipeline where
  "example_pipeline =
     \<lparr>started = True,
      source = (\<lambda>i. if i = 0 then Some example_frames_no_depth
                     else Some example_frames_complete),
      delivered = 0\<rparr>"

definition example_camera :: RealSenseCamera where
  "example_camera =
     \<lparr>pipeline = example_pipeline,
      align_process = (\<lambda>frames. frames),
      colorize = (\<lambda>d. example_depth_colormap),
      pointcloud_calculate = (\<lambda>d. [(0, 0, 3 / 2), (1, 0, 3 / 2), (0, 1, 3 / 2), (1, 1, 3 / 2)]),
      depth_scale = 1 / 1000,
      depth_width = 2,
      depth_height = 2\<rparr>"

definition example_detection :: detection where
  "example_detection =
     \<lparr>names = [0 \<mapsto> ''person'', 1 \<mapsto> ''bicycle''], cls = [0],
      masks_xy = [[(0, 0), (2, 0), (2, 2), (0, 2)]]\<rparr>"

definition example_segmentation :: Segmentation where
  "example_segmentation =
     \<lparr>include_labels = [''person''], yolo_predict = (\<lambda>img. [[example_detection]])\<rparr>"

definition example_cv :: cv2 where
  "example_cv =
     \<lparr>drawContours = (\<lambda>img contour. map (map (\<lambda>_. (0, 0, 255))) img),
      moments = contour_moments\<rparr>"

definition example_processor :: Processor where
  "example_processor =
     \<lparr>camera = example_camera, segmentation = example_segmentation,
      running = False, queue = []\<rparr>"

definition blank_image :: ImageData where
  "blank_image = \<lparr>id_width = 0, id_height = 0, id_format = ''RGB'', id_data = []\<rparr>"

definition dataset_A :: Dataset where
  "dataset_A =
     \<lparr>ds_color_image = blank_image, ds_depth_paletted_image = blank_image,
      ds_segmented_image = blank_image, ds_centroids = [(1, 1, 1000)],
      ds_pointcloud_vertexes = [], ds_pointcloud_colors = []\<rparr>"

definition dataset_B :: Dataset where
  "dataset_B =
     \<lparr>ds_color_image = blank_image, ds_depth_paletted_image = blank_image,
      ds_segmented_image = blank_image, ds_centroids = [(2, 2, 2000)],
      ds_pointcloud_vertexes = [], ds_pointcloud_colors = []\<rparr>"

definition example_segmentation_none :: Segmentation where
  \<comment> \<open>the model finds nothing: one result without detections\<close>
  "example_segmentation_none =
     \<lparr>include_labels = [''person''], yolo_predict = (\<lambda>img. [[]])\<rparr>"

text \<open>
  A schedule in which the thread processes one frame and \<^verbatim>\<open>stop\<close> is called while the
  thread is about to publish, and the state it leads to.
\<close>

definition example_schedule :: "event list" where
  "example_schedule =
     [Start, Thread_step True, Thread_step True, Thread_step True, Thread_step True,
      Stop_set_flag, Thread_step True, Thread_step True, Stop_join]"

definition example_stopped :: world where
  "example_stopped =
     \<lparr>running_flag = False, thread = T_terminated, stopper = S_returned,
      get_frames_calls = 1, segmentation_calls = 1\<rparr>"

definition example_segmentation_unit :: Segmentation where
  \<comment> \<open>one person whose mask polygon becomes the unit square after \<^verbatim>\<open>astype(np.int32)\<close>\<close>
  "example_segmentation_unit =
     \<lparr>include_labels = [''person''],
      yolo_predict = (\<lambda>img.
        [[\<lparr>names = [0 \<mapsto> ''person''], cls = [0],
           masks_xy = [[(0, 0), (3 / 2, 0), (3 / 2, 3 / 2), (0, 3 / 2)]]\<rparr>]])\<rparr>"

definition example_overlay :: image where
  "example_overlay = [[(10, 20, 158), (40, 50, 188)], [(70, 80, 218), (100, 110, 248)]]"

definition example_frameset :: Frameset where
  "example_frameset =
     \<lparr>fs_depth_frame = example_depth_frame,
      fs_depth_image = [[(7, 8, 9), (10, 11, 12)], [(1, 2, 3), (4, 5, 6)]],
      fs_color_image = example_color_image,
      fs_pointcloud_vertexes =
        [[(0, 0, 3 / 2), (1, 0, 3 / 2)], [(0, 1, 3 / 2), (1, 1, 3 / 2)]],
      fs_pointcloud_colors =
        [[(1, 2, 3, 255), (4, 5, 6, 255)], [(7, 8, 9, 255), (10, 11, 12, 255)]]\<rparr>"

definition example_camera_after :: RealSenseCamera where
  "example_camera_after = example_camera\<lparr>pipeline := example_pipeline\<lparr>delivered := 2\<rparr>\<rparr>"

definition example_dataset :: Dataset where
  "example_dataset =
     \<lparr>ds_color_image =
        \<lparr>id_width = 2, id_height = 2, id_format = ''RGB'',
         id_data = [90, 80, 70, 120, 110, 100, 30, 20, 10, 60, 50, 40]\<rparr>,
      ds_depth_paletted_image =
        \<lparr>id_width = 2, id_height = 2, id_format = ''RGB'',
         id_data = [7, 8, 9, 10, 11, 12, 1, 2, 3, 4, 5, 6]\<rparr>,
      ds_segmented_image =
        \<lparr>id_width = 2, id_height = 2, id_format = ''RGB'',
         id_data = [218, 80, 70, 248, 110, 100, 158, 20, 10, 188, 50, 40]\<rparr>,
      ds_centroids = [(1, 1, 1500)],
      ds_pointcloud_vertexes = fs_pointcloud_vertexes example_frameset,
      ds_pointcloud_colors = fs_pointcloud_colors example_frameset\<rparr>"

definition example_published :: Processor where
  "example_published =
     publish (example_processor\<lparr>camera := example_camera_after\<rparr>) example_dataset"

subsection \<open>Notions used in the statements\<close>

definition moment_centroid :: "cv_moments \<Rightarrow> int \<times> int" where
  \<comment> \<open>the image-moment centroid \<open>(M10 / M00, M01 / M00)\<close>, truncated to integer pixels\<close>
  "moment_centroid m = (py_int (m10 m / m00 m), py_int (m01 m / m00 m))"

fun allowed_contours :: "string list \<Rightarrow> detection list \<Rightarrow> contour list" where
  \<comment> \<open>the mask polygons of the detections whose label is in the allow-list, in order\<close>
  "allowed_contours labels [] = []"
| "allowed_contours labels (c # cs) =
     (case det_label c of
        Inl e \<Rightarrow> allowed_contours labels cs
      | Inr label \<Rightarrow>
          if label \<in> set labels
          then (case det_contour c of
                  Inl e \<Rightarrow> allowed_contours labels cs
                | Inr contour \<Rightarrow> contour # allowed_contours labels cs)
          else allowed_contours labels cs)"

definition frames_valid :: "RealSenseCamera \<Rightarrow> rs_frames \<Rightarrow> bool" where
  \<comment> \<open>after alignment the composite holds both a depth frame and a colour frame\<close>
  "frames_valid cam frames =
     (get_depth_frame (align_process cam frames) \<noteq> None \<and>
      get_color_frame (align_process cam frames) \<noteq> None)"

definition delivered_to :: "RealSenseCamera \<Rightarrow> nat \<Rightarrow> RealSenseCamera" where
  \<comment> \<open>the camera once its pipeline has handed out \<open>i\<close> composite frames\<close>
  "delivered_to cam i = cam\<lparr>pipeline := (pipeline cam)\<lparr>delivered := i\<rparr>\<rparr>"

definition dropped_before :: "RealSenseCamera \<Rightarrow> nat \<Rightarrow> bool" where
  \<comment> \<open>the next \<open>n\<close> composite frames all arrive and all fail the validity test\<close>
  "dropped_before cam n =
     (\<forall>k \<in> {0..<n}.
        case source (pipeline cam) (delivered (pipeline cam) + k) of
          None \<Rightarrow> False
        | Some frames \<Rightarrow> \<not> frames_valid cam frames)"

definition returned_from :: "RealSenseCamera \<Rightarrow> Frameset \<Rightarrow> RealSenseCamera \<Rightarrow> bool" where
  \<comment> \<open>\<open>fs\<close> is built from the first valid composite frame, the earlier ones dropped\<close>
  "returned_from cam fs cam' =
     (\<exists>n frames d c. started (pipeline cam) \<and> dropped_before cam n \<and>
        source (pipeline cam) (delivered (pipeline cam) + n) = Some frames \<and>
        get_depth_frame (align_process cam frames) = Some d \<and>
        get_color_frame (align_process cam frames) = Some c \<and>
        make_frameset cam d c = Inr fs \<and>
        cam' = delivered_to cam (Suc (delivered (pipeline cam) + n)))"

definition stop_inv :: "world \<Rightarrow> bool" where
  \<comment> \<open>\<^verbatim>\<open>stop\<close> has returned only if the thread has terminated\<close>
  "stop_inv w = (stopper w = S_returned \<longrightarrow> thread w = T_terminated)"

section \<open>Properties\<close>

subsection \<open>Blending with an empty mask\<close>

lemma cvRound_of_int: "cvRound (of_int k) = k"
  by (simp add: cvRound_def)

lemma saturate_u8_uint: "saturate_u8 (uint (a :: uint8)) = a"
proof -
  have "uint a < 256" using uint_lt2p [of a] by simp
  then show ?thesis by (simp add: saturate_u8_def)
qed

lemma blend_channel_zero: "blend_channel 1 (1 / 2) 0 a 0 = a"
proof -
  have e: "of_nat (unat a) * 1 + of_nat (unat (0 :: uint8)) * (1 / 2) + 0
             = (of_int (uint a) :: rat)"
    by simp
  show ?thesis
    unfolding blend_channel_def e cvRound_of_int saturate_u8_uint ..
qed

lemma blend_pixel_zero: "blend_pixel 1 (1 / 2) 0 p (0, 0, 0) = p"
  by (cases p) (simp add: blend_pixel_def blend_channel_zero)

lemma blend_row_zero:
  "map2 (blend_pixel 1 (1 / 2) 0) row (map (\<lambda>_. (0, 0, 0)) row) = row"
  by (induction row) (simp_all add: blend_pixel_zero)

lemma blend_image_zero:
  "map2 (map2 (blend_pixel 1 (1 / 2) 0)) img (map (map (\<lambda>_. (0, 0, 0))) img) = img"
  by (induction img) (simp_all add: blend_row_zero)

lemma addWeighted_zeros: "addWeighted img 1 (np_zeros_like img) (1 / 2) 0 = Inr img"
  by (simp add: addWeighted_def np_zeros_like_def blend_image_zero comp_def)

subsection \<open>Evaluating the concrete scene\<close>

lemma floor_rat_numeral: "\<lfloor>(numeral a / numeral b :: rat)\<rfloor> = numeral a div numeral b"
  using floor_divide_of_int_eq [of "numeral a" "numeral b", where ?'a = rat] by simp

lemma floor_rat_one_numeral: "\<lfloor>(1 / numeral b :: rat)\<rfloor> = 1 div numeral b"
  using floor_divide_of_int_eq [of 1 "numeral b", where ?'a = rat] by simp

lemmas example_simps =
  process_def generator_truthy_def example_cv_def example_color_image_def
  example_depth_frame_def example_overlay_def det_label_def det_contour_def pop_def
  py_int_def np_zeros_like_def addWeighted_def blend_pixel_def blend_channel_def
  cvRound_def saturate_u8_def contour_moments_def get_distance_def Let_def
  floor_rat_numeral floor_rat_one_numeral

lemma example_process:
  "process example_cv example_segmentation example_color_image example_depth_frame
     = Inr (example_overlay, [(1, 1, 3 / 2)])"
  by (simp add: example_simps example_segmentation_def example_detection_def)

lemma example_process_unit:
  "process example_cv example_segmentation_unit example_color_image example_depth_frame
     = Inr (example_overlay, [(0, 0, 3 / 2)])"
  by (simp add: example_simps example_segmentation_unit_def)

lemma example_get_frames:
  "get_frames example_camera = Some (Inr (example_frameset, example_camera_after))"
  apply (subst get_frames.simps)
  apply (simp add: example_camera_def example_pipeline_def wait_for_frames_def
      example_frames_no_depth_def)
  apply (subst get_frames.simps)
  apply (simp add: wait_for_frames_def example_frames_complete_def make_frameset_def
      np_concatenate_last_def np_ones_255_def np_reshape_def np_flipud_def
      example_depth_colormap_def example_frameset_def example_camera_after_def
      example_camera_def example_pipeline_def numeral_2_eq_2 upt_rec)
  done

subsection \<open>Segmentation\<close>

lemma process_empty_generator:
  "yolo_predict seg color_image = [] \<Longrightarrow>
   process cv seg color_image depth_frame = Inl IndexError"
  by (simp add: process_def generator_truthy_def)

text \<open>
  C4, as the code has it. When the result of the model for the frame holds no
  detection, \<^verbatim>\<open>process\<close> does not fail and returns an empty centroid list and, as
  overlay, the colour image unchanged: the blend of the colour image with a mask on
  which nothing was drawn.
\<close>

theorem process_no_detections:
  "yolo_predict seg color_image = [] # others \<Longrightarrow>
   process cv seg color_image depth_frame = Inr (color_image, [])"
  by (simp add: process_def generator_truthy_def addWeighted_zeros)

theorem process_no_detections_witness:
  "yolo_predict example_segmentation_none example_color_image = [] # [] \<and>
   process example_cv example_segmentation_none example_color_image example_depth_frame
     = Inr (example_color_image, [])"
proof -
  have h: "yolo_predict example_segmentation_none example_color_image = [] # []"
    by (simp add: example_segmentation_none_def)
  from process_no_detections [OF h] h show ?thesis by simp
qed

text \<open>
  C4 as stated fails: with no detection the overlay returned for the example image is
  the image itself, which is not the zeroed image.
\<close>

theorem process_no_detections_counterexample:
  "process example_cv example_segmentation_none example_color_image example_depth_frame
     = Inr (example_color_image, []) \<and>
   example_color_image \<noteq> np_zeros_like example_color_image"
  by (simp add: process_def generator_truthy_def addWeighted_zeros
        example_segmentation_none_def)
     (simp add: example_color_image_def np_zeros_like_def)

lemma draw_loop_contours:
  "draw_loop cv labels result img acc = Inr (img', cs) \<Longrightarrow>
   cs = acc @ allowed_contours labels result"
proof (induction result arbitrary: img acc)
  case Nil
  then show ?case by simp
next
  case (Cons c result)
  from Cons.prems show ?case
    by (auto split: sum.splits if_splits dest!: Cons.IH)
qed

lemma centroid_loop_pixels:
  "centroid_loop cv df cs acc = Inr out \<Longrightarrow>
   map (\<lambda>c. (fst c, fst (snd c))) out =
     map (\<lambda>c. (fst c, fst (snd c))) acc @
     map (\<lambda>k. moment_centroid (moments cv k)) (filter (\<lambda>k. m00 (moments cv k) \<noteq> 0) cs)"
proof (induction cs arbitrary: acc)
  case Nil
  then show ?case by simp
next
  case (Cons k cs)
  then show ?case
    by (auto simp: moment_centroid_def split: sum.splits if_splits)
qed

lemma centroid_loop_distance:
  "centroid_loop cv df cs acc = Inr out \<Longrightarrow>
   \<forall>c \<in> set acc. get_distance df (fst c) (fst (snd c)) = Inr (snd (snd c)) \<Longrightarrow>
   \<forall>c \<in> set out. get_distance df (fst c) (fst (snd c)) = Inr (snd (snd c))"
proof (induction cs arbitrary: acc)
  case Nil
  then show ?case by simp
next
  case (Cons k cs)
  show ?case
  proof (cases "m00 (moments cv k) = 0")
    case True
    with Cons.prems Cons.IH [of acc] show ?thesis by simp
  next
    case False
    with Cons.prems(1) obtain z where
      z: "get_distance df (py_int (m10 (moments cv k) / m00 (moments cv k)))
            (py_int (m01 (moments cv k) / m00 (moments cv k))) = Inr z"
      and r: "centroid_loop cv df cs
               (acc @ [(py_int (m10 (moments cv k) / m00 (moments cv k)),
                        py_int (m01 (moments cv k) / m00 (moments cv k)), z)]) = Inr out"
      by (auto split: sum.splits)
    show ?thesis
      by (rule Cons.IH [OF r]) (use z Cons.prems(2) in auto)
  qed
qed

lemma process_centroid_loop:
  "yolo_predict seg img = result # others \<Longrightarrow>
   process cv seg img df = Inr (overlay, centroids) \<Longrightarrow>
   centroid_loop cv df (allowed_contours (include_labels seg) result) [] = Inr centroids"
  by (auto simp: process_def generator_truthy_def split: sum.splits dest: draw_loop_contours)

lemma process_some_centroid_loop:
  "process cv seg img df = Inr (overlay, centroids) \<Longrightarrow>
   \<exists>cs. centroid_loop cv df cs [] = Inr centroids"
  by (auto simp: process_def generator_truthy_def split: sum.splits list.splits)

lemma rectangle_moments:
  assumes "x0 < x1" "y0 < y1"
  shows "contour_moments [(x0, y0), (x1, y0), (x1, y1), (x0, y1)] =
     \<lparr>m00 = of_int ((x1 - x0) * (y1 - y0)),
      m10 = of_int ((x1 - x0) * (y1 - y0)) * (of_int (x0 + x1) / 2),
      m01 = of_int ((x1 - x0) * (y1 - y0)) * (of_int (y0 + y1) / 2)\<rparr>"
proof -
  have pos: "0 < (x1 - x0) * (y1 - y0)" using assms by simp
  have g: "green_sums (x0, y1) [(x0, y0), (x1, y0), (x1, y1), (x0, y1)] =
     (2 * ((x1 - x0) * (y1 - y0)), 3 * ((x1 - x0) * (y1 - y0)) * (x0 + x1),
      3 * ((x1 - x0) * (y1 - y0)) * (y0 + y1))"
    by (simp add: algebra_simps)
  show ?thesis using pos
    unfolding contour_moments_def by (simp add: g del: green_sums.simps)
qed

lemma rectangle_centroid:
  assumes "x0 < x1" "y0 < y1"
  shows "moment_centroid (contour_moments [(x0, y0), (x1, y0), (x1, y1), (x0, y1)])
           = (py_int (of_int (x0 + x1) / 2), py_int (of_int (y0 + y1) / 2))"
proof -
  have "(of_int ((x1 - x0) * (y1 - y0)) :: rat) \<noteq> 0" using assms by simp
  then show ?thesis
    unfolding rectangle_moments [OF assms] moment_centroid_def by simp
qed

text \<open>
  C6, as the code has it. The pixel coordinates of the centroids that \<^verbatim>\<open>process\<close>
  returns are, in order, \<open>(int(M10 / M00), int(M01 / M00))\<close> for the mask polygons of the
  detections whose label is in the allow-list and whose area \<open>M00\<close> is not zero: the
  image-moment centroid truncated towards zero to integer pixels; polygons with
  \<open>M00 = 0\<close> yield no centroid. For an axis-parallel rectangle this is its geometric
  centre \<open>((x0 + x1) / 2, (y0 + y1) / 2)\<close> truncated to integers.
\<close>

theorem centroids_are_truncated_moment_centroids:
  "(yolo_predict seg img = result # others \<longrightarrow>
    process cv seg img df = Inr (overlay, centroids) \<longrightarrow>
      map (\<lambda>c. (fst c, fst (snd c))) centroids =
        map (\<lambda>k. moment_centroid (moments cv k))
          (filter (\<lambda>k. m00 (moments cv k) \<noteq> 0)
             (allowed_contours (include_labels seg) result))) \<and>
   (x0 < x1 \<longrightarrow> y0 < y1 \<longrightarrow>
      moment_centroid (contour_moments [(x0, y0), (x1, y0), (x1, y1), (x0, y1)])
        = (py_int (of_int (x0 + x1) / 2), py_int (of_int (y0 + y1) / 2)))"
proof (intro conjI impI)
  assume "yolo_predict seg img = result # others"
    and "process cv seg img df = Inr (overlay, centroids)"
  from centroid_loop_pixels [OF process_centroid_loop [OF this]]
  show "map (\<lambda>c. (fst c, fst (snd c))) centroids =
        map (\<lambda>k. moment_centroid (moments cv k))
          (filter (\<lambda>k. m00 (moments cv k) \<noteq> 0)
             (allowed_contours (include_labels seg) result))"
    by simp
next
  assume "x0 < x1" "y0 < y1"
  then show "moment_centroid (contour_moments [(x0, y0), (x1, y0), (x1, y1), (x0, y1)])
        = (py_int (of_int (x0 + x1) / 2), py_int (of_int (y0 + y1) / 2))"
    by (rule rectangle_centroid)
qed

theorem centroids_are_truncated_moment_centroids_witness:
  "yolo_predict example_segmentation example_color_image = [example_detection] # [] \<and>
   process example_cv example_segmentation example_color_image example_depth_frame
     = Inr (example_overlay, [(1, 1, 3 / 2)]) \<and>
   map (\<lambda>k. moment_centroid (moments example_cv k))
     (filter (\<lambda>k. m00 (moments example_cv k) \<noteq> 0)
        (allowed_contours (include_labels example_segmentation) [example_detection]))
     = [(1, 1)] \<and>
   (10 :: int) < 20 \<and>
   moment_centroid (contour_moments [(10, 10), (20, 10), (20, 20), (10, 20)]) = (15, 15)"
proof -
  have a: "yolo_predict example_segmentation example_color_image = [example_detection] # []"
    by (simp add: example_segmentation_def)
  have b: "(10 :: int) < 20" by simp
  have c: "py_int (of_int (10 + 20) / 2) = 15" by (simp add: py_int_def floor_rat_numeral)
  from centroids_are_truncated_moment_centroids
         [of example_segmentation example_color_image "[example_detection]" "[]"
             example_cv example_depth_frame example_overlay "[(1, 1, 3 / 2)]" 10 20 10 20]
       a example_process b c
  show ?thesis by simp
qed

text \<open>
  C6 as stated fails: for the unit square the moments give \<open>M10 / M00 = M01 / M00 = 1/2\<close>,
  the geometric centre, and the centroid computed is \<open>(0, 0)\<close>.
\<close>

theorem centroid_unit_square_counterexample:
  "process example_cv example_segmentation_unit example_color_image example_depth_frame
     = Inr (example_overlay, [(0, 0, 3 / 2)]) \<and>
   m10 (contour_moments [(0, 0), (1, 0), (1, 1), (0, 1)])
     / m00 (contour_moments [(0, 0), (1, 0), (1, 1), (0, 1)]) = 1 / 2 \<and>
   m01 (contour_moments [(0, 0), (1, 0), (1, 1), (0, 1)])
     / m00 (contour_moments [(0, 0), (1, 0), (1, 1), (0, 1)]) = 1 / 2"
  using example_process_unit by (simp add: contour_moments_def)

subsection \<open>The camera loop\<close>

lemma make_frameset_pipeline [simp]:
  "make_frameset (cam\<lparr>pipeline := pl\<rparr>) d c = make_frameset cam d c"
  by (simp add: make_frameset_def split: sum.splits)

lemma make_frameset_fields:
  "make_frameset cam d c = Inr fs \<Longrightarrow>
   fs_depth_frame fs = d \<and> fs_color_image fs = cf_data c \<and>
   np_concatenate_last (colorize cam d) (np_ones_255 (depth_height cam) (depth_width cam))
     = Inr (fs_pointcloud_colors fs)"
  by (auto simp: make_frameset_def split: sum.splits)

lemma dropped_before_0: "dropped_before cam 0"
  by (simp add: dropped_before_def)

lemma dropped_before_Suc:
  "dropped_before cam (Suc n) \<longleftrightarrow>
     (\<exists>g. source (pipeline cam) (delivered (pipeline cam)) = Some g \<and> \<not> frames_valid cam g) \<and>
     dropped_before (delivered_to cam (Suc (delivered (pipeline cam)))) n"
proof -
  have "(\<forall>k \<in> {0..<Suc n}. Q k) \<longleftrightarrow> Q 0 \<and> (\<forall>k \<in> {0..<n}. Q (Suc k))" for Q :: "nat \<Rightarrow> bool"
  proof
    assume a: "\<forall>k \<in> {0..<Suc n}. Q k"
    then show "Q 0 \<and> (\<forall>k \<in> {0..<n}. Q (Suc k))" by auto
  next
    assume b: "Q 0 \<and> (\<forall>k \<in> {0..<n}. Q (Suc k))"
    show "\<forall>k \<in> {0..<Suc n}. Q k"
    proof
      fix k assume "k \<in> {0..<Suc n}"
      with b show "Q k" by (cases k) auto
    qed
  qed
  then show ?thesis
    by (auto simp: dropped_before_def delivered_to_def frames_valid_def split: option.splits)
qed

text \<open>
  The loop returns: when the next \<open>n\<close> composite frames are dropped and the one after
  them is valid, \<^verbatim>\<open>get_frames\<close> yields the frameset built from that one.
\<close>

lemma get_frames_skips:
  "started (pipeline cam) \<Longrightarrow> dropped_before cam n \<Longrightarrow>
   source (pipeline cam) (delivered (pipeline cam) + n) = Some frames \<Longrightarrow>
   get_depth_frame (align_process cam frames) = Some d \<Longrightarrow>
   get_color_frame (align_process cam frames) = Some c \<Longrightarrow>
   get_frames cam =
     Some (case make_frameset cam d c of
             Inl e \<Rightarrow> Inl e
           | Inr fs \<Rightarrow> Inr (fs, delivered_to cam (Suc (delivered (pipeline cam) + n))))"
proof (induction n arbitrary: cam)
  case 0
  then show ?case
    by (subst get_frames.simps)
       (simp add: wait_for_frames_def delivered_to_def split: sum.splits)
next
  case (Suc n)
  let ?cam = "delivered_to cam (Suc (delivered (pipeline cam)))"
  from Suc.prems(2) obtain g where
    g: "source (pipeline cam) (delivered (pipeline cam)) = Some g" "\<not> frames_valid cam g"
    and rest: "dropped_before ?cam n"
    by (auto simp: dropped_before_Suc)
  have step: "get_frames cam = get_frames ?cam"
    using Suc.prems(1) g
    by (subst get_frames.simps)
       (auto simp: wait_for_frames_def frames_valid_def delivered_to_def split: option.splits)
  have "get_frames ?cam =
     Some (case make_frameset ?cam d c of
             Inl e \<Rightarrow> Inl e
           | Inr fs \<Rightarrow> Inr (fs, delivered_to ?cam (Suc (delivered (pipeline ?cam) + n))))"
    by (rule Suc.IH [OF _ rest]) (use Suc.prems in \<open>simp_all add: delivered_to_def\<close>)
  with step show ?case by (simp add: delivered_to_def split: sum.splits)
qed

lemma returned_from_now:
  "started (pipeline cam) \<Longrightarrow>
   source (pipeline cam) (delivered (pipeline cam)) = Some frames \<Longrightarrow>
   get_depth_frame (align_process cam frames) = Some d \<Longrightarrow>
   get_color_frame (align_process cam frames) = Some c \<Longrightarrow>
   make_frameset cam d c = Inr fs \<Longrightarrow>
   returned_from cam fs (delivered_to cam (Suc (delivered (pipeline cam))))"
  unfolding returned_from_def
  by (rule exI [of _ 0]) (auto simp: dropped_before_0)

lemma returned_from_later:
  assumes "started (pipeline cam)"
    and "source (pipeline cam) (delivered (pipeline cam)) = Some g"
    and "\<not> frames_valid cam g"
    and "returned_from (delivered_to cam (Suc (delivered (pipeline cam)))) fs cam'"
  shows "returned_from cam fs cam'"
proof -
  let ?cam = "delivered_to cam (Suc (delivered (pipeline cam)))"
  from assms(4) obtain n frames d c where
    h: "dropped_before ?cam n"
       "source (pipeline ?cam) (delivered (pipeline ?cam) + n) = Some frames"
       "get_depth_frame (align_process ?cam frames) = Some d"
       "get_color_frame (align_process ?cam frames) = Some c"
       "make_frameset ?cam d c = Inr fs"
       "cam' = delivered_to ?cam (Suc (delivered (pipeline ?cam) + n))"
    unfolding returned_from_def by blast
  have "dropped_before cam (Suc n)"
    using assms(2,3) h(1) by (auto simp: dropped_before_Suc)
  moreover have "source (pipeline cam) (delivered (pipeline cam) + Suc n) = Some frames"
    using h(2) by (simp add: delivered_to_def)
  moreover have "get_depth_frame (align_process cam frames) = Some d"
    "get_color_frame (align_process cam frames) = Some c"
    "make_frameset cam d c = Inr fs"
    using h(3,4,5) by (simp_all add: delivered_to_def)
  moreover have "cam' = delivered_to cam (Suc (delivered (pipeline cam) + Suc n))"
    using h(6) by (simp add: delivered_to_def)
  ultimately show ?thesis
    unfolding returned_from_def using assms(1) by blast
qed

text \<open>
  Whatever the loop returns was built from a valid composite frame: by induction on
  the iterations of the loop.
\<close>

lemma get_frames_returned:
  assumes "get_frames cam = Some y"
  shows "\<forall>fs cam'. y = Inr (fs, cam') \<longrightarrow> returned_from cam fs cam'"
proof (rule get_frames.raw_induct
    [where P = "\<lambda>cam y. \<forall>fs cam'. y = Inr (fs, cam') \<longrightarrow> returned_from cam fs cam'",
     OF _ assms])
  fix loop :: "RealSenseCamera \<Rightarrow> (py_error + Frameset \<times> RealSenseCamera) option"
  fix cam y
  assume IH: "\<And>x y. loop x = Some y \<Longrightarrow>
                \<forall>fs cam'. y = Inr (fs, cam') \<longrightarrow> returned_from x fs cam'"
  assume body:
    "(case wait_for_frames (pipeline cam) of
        Inl e \<Rightarrow> Some (Inl e)
      | Inr r \<Rightarrow>
          (case get_depth_frame (align_process cam (fst r)) of
             None \<Rightarrow> loop (cam\<lparr>pipeline := snd r\<rparr>)
           | Some depth_frame \<Rightarrow>
               (case get_color_frame (align_process cam (fst r)) of
                  None \<Rightarrow> loop (cam\<lparr>pipeline := snd r\<rparr>)
                | Some color_frame \<Rightarrow>
                    (case make_frameset cam depth_frame color_frame of
                       Inl e \<Rightarrow> Some (Inl e)
                     | Inr frameset \<Rightarrow> Some (Inr (frameset, cam\<lparr>pipeline := snd r\<rparr>))))))
     = Some y"
  show "\<forall>fs cam'. y = Inr (fs, cam') \<longrightarrow> returned_from cam fs cam'"
  proof (intro allI impI)
    fix fs cam' assume y: "y = Inr (fs, cam')"
    let ?next = "delivered_to cam (Suc (delivered (pipeline cam)))"
    from body y obtain g where
      st: "started (pipeline cam)"
      and g: "source (pipeline cam) (delivered (pipeline cam)) = Some g"
      and w: "wait_for_frames (pipeline cam)
                = Inr (g, (pipeline cam)\<lparr>delivered := Suc (delivered (pipeline cam))\<rparr>)"
      by (auto simp: wait_for_frames_def split: if_splits option.splits)
    show "returned_from cam fs cam'"
    proof (cases "frames_valid cam g")
      case True
      then obtain d c where
        dc: "get_depth_frame (align_process cam g) = Some d"
            "get_color_frame (align_process cam g) = Some c"
        by (auto simp: frames_valid_def)
      with body y w have "make_frameset cam d c = Inr fs" "cam' = ?next"
        by (auto simp: delivered_to_def split: sum.splits)
      with returned_from_now [OF st g dc] show ?thesis by simp
    next
      case False
      with body w have "loop ?next = Some y"
        by (auto simp: frames_valid_def delivered_to_def split: option.splits)
      from IH [OF this] y have "returned_from ?next fs cam'" by simp
      from returned_from_later [OF st g False this] show ?thesis .
    qed
  qed
qed

text \<open>
  C8. Whenever \<^verbatim>\<open>get_frames\<close> returns a frameset, its depth frame and its colour image
  are those of a composite frame that holds both after alignment, every composite
  frame delivered before that one was incomplete and was dropped, and the pipeline
  has advanced just past it. Conversely, on a streaming pipeline whose next \<open>m\<close>
  composite frames are incomplete and whose one after is complete, \<^verbatim>\<open>get_frames\<close> does
  return, with the frameset built from the complete one: the incomplete frames raise
  nothing.
\<close>

theorem get_frames_drops_incomplete_frames:
  "(get_frames cam = Some (Inr (frameset, cam')) \<longrightarrow>
      (\<exists>n frames color_frame.
         dropped_before cam n \<and>
         source (pipeline cam) (delivered (pipeline cam) + n) = Some frames \<and>
         get_depth_frame (align_process cam frames) = Some (fs_depth_frame frameset) \<and>
         get_color_frame (align_process cam frames) = Some color_frame \<and>
         fs_color_image frameset = cf_data color_frame \<and>
         cam' = delivered_to cam (Suc (delivered (pipeline cam) + n)))) \<and>
   (started (pipeline cam) \<longrightarrow> dropped_before cam m \<longrightarrow>
      source (pipeline cam) (delivered (pipeline cam) + m) = Some good \<longrightarrow>
      get_depth_frame (align_process cam good) = Some d \<longrightarrow>
      get_color_frame (align_process cam good) = Some c \<longrightarrow>
      get_frames cam =
        Some (case make_frameset cam d c of
                Inl e \<Rightarrow> Inl e
              | Inr fs \<Rightarrow> Inr (fs, delivered_to cam (Suc (delivered (pipeline cam) + m)))))"
proof (intro conjI impI)
  assume "get_frames cam = Some (Inr (frameset, cam'))"
  from get_frames_returned [OF this] have "returned_from cam frameset cam'" by simp
  then obtain n frames d c where
    h: "dropped_before cam n"
       "source (pipeline cam) (delivered (pipeline cam) + n) = Some frames"
       "get_depth_frame (align_process cam frames) = Some d"
       "get_color_frame (align_process cam frames) = Some c"
       "make_frameset cam d c = Inr frameset"
       "cam' = delivered_to cam (Suc (delivered (pipeline cam) + n))"
    unfolding returned_from_def by blast
  from make_frameset_fields [OF h(5)] h show
    "\<exists>n frames color_frame.
         dropped_before cam n \<and>
         source (pipeline cam) (delivered (pipeline cam) + n) = Some frames \<and>
         get_depth_frame (align_process cam frames) = Some (fs_depth_frame frameset) \<and>
         get_color_frame (align_process cam frames) = Some color_frame \<and>
         fs_color_image frameset = cf_data color_frame \<and>
         cam' = delivered_to cam (Suc (delivered (pipeline cam) + n))"
    by auto
next
  assume "started (pipeline cam)" "dropped_before cam m"
    "source (pipeline cam) (delivered (pipeline cam) + m) = Some good"
    "get_depth_frame (align_process cam good) = Some d"
    "get_color_frame (align_process cam good) = Some c"
  then show "get_frames cam =
        Some (case make_frameset cam d c of
                Inl e \<Rightarrow> Inl e
              | Inr fs \<Rightarrow> Inr (fs, delivered_to cam (Suc (delivered (pipeline cam) + m))))"
    by (rule get_frames_skips)
qed

theorem get_frames_drops_incomplete_frames_witness:
  "get_frames example_camera = Some (Inr (example_frameset, example_camera_after)) \<and>
   started (pipeline example_camera) \<and> dropped_before example_camera 1 \<and>
   source (pipeline example_camera) (delivered (pipeline example_camera) + 1)
     = Some example_frames_complete \<and>
   get_depth_frame (align_process example_camera example_frames_complete)
     = Some example_depth_frame \<and>
   get_color_frame (align_process example_camera example_frames_complete)
     = Some \<lparr>cf_data = example_color_image\<rparr> \<and>
   (\<exists>n frames color_frame.
      dropped_before example_camera n \<and>
      source (pipeline example_camera) (delivered (pipeline example_camera) + n)
        = Some frames \<and>
      get_depth_frame (align_process example_camera frames)
        = Some (fs_depth_frame example_frameset) \<and>
      get_color_frame (align_process example_camera frames) = Some color_frame \<and>
      fs_color_image example_frameset = cf_data color_frame \<and>
      example_camera_after
        = delivered_to example_camera (Suc (delivered (pipeline example_camera) + n))) \<and>
   get_frames example_camera =
     Some (case make_frameset example_camera example_depth_frame
                  \<lparr>cf_data = example_color_image\<rparr> of
             Inl e \<Rightarrow> Inl e
           | Inr fs \<Rightarrow>
               Inr (fs, delivered_to example_camera
                          (Suc (delivered (pipeline example_camera) + 1))))"
proof -
  have a: "get_frames example_camera = Some (Inr (example_frameset, example_camera_after))"
    by (rule example_get_frames)
  have b: "started (pipeline example_camera)"
    by (simp add: example_camera_def example_pipeline_def)
  have c: "dropped_before example_camera 1"
    by (simp add: dropped_before_def frames_valid_def example_camera_def
          example_pipeline_def example_frames_no_depth_def)
  have d: "source (pipeline example_camera) (delivered (pipeline example_camera) + 1)
             = Some example_frames_complete"
    by (simp add: example_camera_def example_pipeline_def)
  have e: "get_depth_frame (align_process example_camera example_frames_complete)
             = Some example_depth_frame"
    by (simp add: example_camera_def example_frames_complete_def)
  have f: "get_color_frame (align_process example_camera example_frames_complete)
             = Some \<lparr>cf_data = example_color_image\<rparr>"
    by (simp add: example_camera_def example_frames_complete_def)
  note T = get_frames_drops_incomplete_frames
             [where cam = example_camera and frameset = example_frameset
                and cam' = example_camera_after and m = 1
                and good = example_frames_complete and d = example_depth_frame
                and c = "\<lparr>cf_data = example_color_image\<rparr>"]
  from T a b c d e f show ?thesis by blast
qed

lemma concatenate_row:
  "length r = length s \<Longrightarrow>
   map (\<lambda>(c0, c1, c2, c3). (c0, c1, c2)) (map2 (\<lambda>(c0, c1, c2) c3. (c0, c1, c2, c3)) r s) = r \<and>
   map (\<lambda>px. snd (snd (snd px))) (map2 (\<lambda>(c0, c1, c2) c3. (c0, c1, c2, c3)) r s) = s"
  by (induction r s rule: list_induct2) auto

lemma concatenate_image:
  "map length a = map length b \<Longrightarrow>
   map (map (\<lambda>(c0, c1, c2, c3). (c0, c1, c2)))
     (map2 (map2 (\<lambda>(c0, c1, c2) c3. (c0, c1, c2, c3))) a b) = a \<and>
   map (map (\<lambda>px. snd (snd (snd px))))
     (map2 (map2 (\<lambda>(c0, c1, c2) c3. (c0, c1, c2, c3))) a b) = b"
proof (induction a arbitrary: b)
  case Nil
  then show ?case by simp
next
  case (Cons r a)
  then obtain s b' where b: "b = s # b'" by (cases b) auto
  with Cons.prems have "length r = length s" "map length a = map length b'" by simp_all
  with Cons.IH [of b'] concatenate_row [of r s] b show ?case by simp
qed

lemma all_255:
  assumes "map (map f) colors = replicate h (replicate w (255 :: uint8))"
    and "row \<in> set colors" and "px \<in> set row"
  shows "f px = 255"
proof -
  from assms(2) have "map f row \<in> set (map (map f) colors)" by simp
  with assms(1) have "map f row = replicate w 255" by auto
  moreover from assms(3) have "f px \<in> set (map f row)" by simp
  ultimately show ?thesis by auto
qed

text \<open>
  C10. In every frameset that \<^verbatim>\<open>get_frames\<close> returns, the fourth (alpha) channel of
  \<open>pointcloud_colors\<close> is 255 at every pixel, and its first three channels are the
  colorizer's false-colour image of the frameset's depth frame, whatever the colour
  image is.
\<close>

theorem pointcloud_colors_opaque_depth_palette:
  "get_frames cam = Some (Inr (frameset, cam')) \<Longrightarrow>
   (\<forall>row \<in> set (fs_pointcloud_colors frameset). \<forall>px \<in> set row. snd (snd (snd px)) = 255) \<and>
   map (map (\<lambda>(c0, c1, c2, c3). (c0, c1, c2))) (fs_pointcloud_colors frameset)
     = colorize cam (fs_depth_frame frameset)"
proof -
  assume "get_frames cam = Some (Inr (frameset, cam'))"
  from get_frames_returned [OF this] have "returned_from cam frameset cam'" by simp
  then obtain d c where "make_frameset cam d c = Inr frameset"
    unfolding returned_from_def by blast
  from make_frameset_fields [OF this] have d: "fs_depth_frame frameset = d"
    and cc: "np_concatenate_last (colorize cam d)
               (np_ones_255 (depth_height cam) (depth_width cam))
             = Inr (fs_pointcloud_colors frameset)"
    by simp_all
  from cc have sh: "map length (colorize cam d)
                     = map length (np_ones_255 (depth_height cam) (depth_width cam))"
    and eq: "fs_pointcloud_colors frameset =
               map2 (map2 (\<lambda>(c0, c1, c2) c3. (c0, c1, c2, c3))) (colorize cam d)
                 (np_ones_255 (depth_height cam) (depth_width cam))"
    by (auto simp: np_concatenate_last_def split: if_splits)
  from concatenate_image [OF sh] eq have
    rgb: "map (map (\<lambda>(c0, c1, c2, c3). (c0, c1, c2))) (fs_pointcloud_colors frameset)
            = colorize cam d"
    and al: "map (map (\<lambda>px. snd (snd (snd px)))) (fs_pointcloud_colors frameset)
            = replicate (depth_height cam) (replicate (depth_width cam) 255)"
    by (simp_all add: np_ones_255_def)
  from all_255 [OF al] rgb d show ?thesis by blast
qed

theorem pointcloud_colors_opaque_depth_palette_witness:
  "get_frames example_camera = Some (Inr (example_frameset, example_camera_after)) \<and>
   list_all (list_all (\<lambda>px. snd (snd (snd px)) = 255))
     (fs_pointcloud_colors example_frameset) \<and>
   map (map (\<lambda>(c0, c1, c2, c3). (c0, c1, c2))) (fs_pointcloud_colors example_frameset)
     = colorize example_camera (fs_depth_frame example_frameset) \<and>
   fs_pointcloud_colors example_frameset
     = [[(1, 2, 3, 255), (4, 5, 6, 255)], [(7, 8, 9, 255), (10, 11, 12, 255)]]"
proof -
  have a: "get_frames example_camera = Some (Inr (example_frameset, example_camera_after))"
    by (rule example_get_frames)
  have b: "fs_pointcloud_colors example_frameset
     = [[(1, 2, 3, 255), (4, 5, 6, 255)], [(7, 8, 9, 255), (10, 11, 12, 255)]]"
    by (simp add: example_frameset_def)
  from pointcloud_colors_opaque_depth_palette [OF a] a b show ?thesis
    unfolding list_all_iff by blast
qed

subsection \<open>Closing the camera\<close>

text \<open>
  C9, as the code has it. On a camera whose pipeline is streaming, \<^verbatim>\<open>stop\<close> succeeds
  and leaves the pipeline stopped; \<^verbatim>\<open>stop\<close> on the camera so closed raises the SDK's
  error, since the call is passed to the pipeline without a guard.
\<close>

theorem camera_stop_once:
  "started (pipeline cam) \<Longrightarrow>
   camera_stop cam = Inr (cam\<lparr>pipeline := (pipeline cam)\<lparr>started := False\<rparr>\<rparr>) \<and>
   camera_stop (cam\<lparr>pipeline := (pipeline cam)\<lparr>started := False\<rparr>\<rparr>) = Inl RuntimeError"
  by (simp add: camera_stop_def pipeline_stop_def)

theorem camera_stop_once_witness:
  "started (pipeline example_camera) \<and>
   camera_stop example_camera
     = Inr (example_camera\<lparr>pipeline := (pipeline example_camera)\<lparr>started := False\<rparr>\<rparr>) \<and>
   camera_stop (example_camera\<lparr>pipeline := (pipeline example_camera)\<lparr>started := False\<rparr>\<rparr>)
     = Inl RuntimeError"
proof -
  have s: "started (pipeline example_camera)"
    by (simp add: example_camera_def example_pipeline_def)
  from camera_stop_once [OF s] s show ?thesis by simp
qed

text \<open>C9 as stated fails: the second \<^verbatim>\<open>stop\<close> of the example camera raises.\<close>

theorem camera_stop_twice_counterexample:
  "camera_stop example_camera
     = Inr (example_camera\<lparr>pipeline := example_pipeline\<lparr>started := False\<rparr>\<rparr>) \<and>
   camera_stop (example_camera\<lparr>pipeline := example_pipeline\<lparr>started := False\<rparr>\<rparr>)
     = Inl RuntimeError"
  by (simp add: camera_stop_def pipeline_stop_def example_camera_def example_pipeline_def)

subsection \<open>The published distances\<close>

lemma centroids_mm_Inr:
  "centroids_mm scale cs = Inr out \<Longrightarrow>
   out = map (\<lambda>c. (fst c, fst (snd c), py_int (snd (snd c) / scale))) cs \<and>
   (cs = [] \<or> scale \<noteq> 0)"
proof (induction cs arbitrary: out)
  case Nil
  then show ?case by simp
next
  case (Cons c cs)
  from Cons.prems show ?case
    by (auto simp: py_truediv_def split: sum.splits if_splits dest!: Cons.IH)
qed

text \<open>
  C5. When \<^verbatim>\<open>_process_frame\<close> publishes a dataset, the dataset is appended to the
  queue, and for every centroid \<open>(cx, cy, distance)\<close> in it the depth frame of the
  frameset just read gives a sample at \<open>(cx, cy)\<close>, the depth scale is not zero, and
  \<open>distance = int(sample / depth_scale)\<close>.
\<close>

theorem dataset_distance_is_sample_over_scale:
  "process_frame cv p = Some (Inr p') \<Longrightarrow>
   \<exists>frameset d. get_frames (camera p) = Some (Inr (frameset, camera p')) \<and>
     queue p' = queue p @ [d] \<and>
     (\<forall>c \<in> set (ds_centroids d). \<exists>sample.
         get_distance (fs_depth_frame frameset) (fst c) (fst (snd c)) = Inr sample \<and>
         depth_scale (camera p') \<noteq> 0 \<and>
         snd (snd c) = py_int (sample / depth_scale (camera p')))"
proof -
  assume a: "process_frame cv p = Some (Inr p')"
  then obtain frameset cam where g: "get_frames (camera p) = Some (Inr (frameset, cam))"
    by (auto simp: process_frame_def split: option.splits sum.splits)
  with a obtain segmented_image centroids cs where
    pr: "process cv (segmentation p) (fs_color_image frameset) (fs_depth_frame frameset)
           = Inr (segmented_image, centroids)"
    and mm: "centroids_mm (depth_scale cam) centroids = Inr cs"
    and p': "p' = publish (p\<lparr>camera := cam\<rparr>)
               \<lparr>ds_color_image = cv2img_to_pyglet (fs_color_image frameset),
                ds_depth_paletted_image = nparray_to_cv2img (fs_depth_image frameset),
                ds_segmented_image = cv2img_to_pyglet segmented_image,
                ds_centroids = cs,
                ds_pointcloud_vertexes = fs_pointcloud_vertexes frameset,
                ds_pointcloud_colors = fs_pointcloud_colors frameset\<rparr>"
    by (auto simp: process_frame_def split: sum.splits)
  from process_some_centroid_loop [OF pr] obtain ks where
    "centroid_loop cv (fs_depth_frame frameset) ks [] = Inr centroids" ..
  from centroid_loop_distance [OF this] have d:
    "\<forall>c \<in> set centroids.
       get_distance (fs_depth_frame frameset) (fst c) (fst (snd c)) = Inr (snd (snd c))"
    by simp
  from centroids_mm_Inr [OF mm] have
    cs: "cs = map (\<lambda>c. (fst c, fst (snd c), py_int (snd (snd c) / depth_scale cam))) centroids"
    and nz: "centroids = [] \<or> depth_scale cam \<noteq> 0"
    by simp_all
  have cam: "camera p' = cam" by (simp add: p' publish_def)
  have q: "queue p' = queue p @
             [\<lparr>ds_color_image = cv2img_to_pyglet (fs_color_image frameset),
               ds_depth_paletted_image = nparray_to_cv2img (fs_depth_image frameset),
               ds_segmented_image = cv2img_to_pyglet segmented_image,
               ds_centroids = cs,
               ds_pointcloud_vertexes = fs_pointcloud_vertexes frameset,
               ds_pointcloud_colors = fs_pointcloud_colors frameset\<rparr>]"
    by (simp add: p' publish_def queue_put_def)
  have "\<forall>c \<in> set cs. \<exists>sample.
         get_distance (fs_depth_frame frameset) (fst c) (fst (snd c)) = Inr sample \<and>
         depth_scale cam \<noteq> 0 \<and>
         snd (snd c) = py_int (sample / depth_scale cam)"
    using d nz by (auto simp: cs)
  with g q cam show ?thesis by auto
qed

lemma example_process_frame:
  "process_frame example_cv example_processor = Some (Inr example_published)"
proof -
  have f: "fs_color_image example_frameset = example_color_image"
    "fs_depth_frame example_frameset = example_depth_frame"
    by (simp_all add: example_frameset_def)
  have c: "depth_scale example_camera_after = 1 / 1000"
    by (simp add: example_camera_after_def example_camera_def)
  have i: "cv2img_to_pyglet example_color_image = ds_color_image example_dataset"
    "nparray_to_cv2img (fs_depth_image example_frameset)
       = ds_depth_paletted_image example_dataset"
    "cv2img_to_pyglet example_overlay = ds_segmented_image example_dataset"
    by (simp_all add: cv2img_to_pyglet_def nparray_to_cv2img_def cvtColor_BGR2RGB_def
          cv_flip0_def tobytes_def shape0_def shape1_def example_color_image_def
          example_overlay_def example_frameset_def example_dataset_def)
  have s: "camera example_processor = example_camera"
    "segmentation example_processor = example_segmentation"
    by (simp_all add: example_processor_def)
  show ?thesis
    unfolding process_frame_def s example_get_frames
    by (simp add: f example_process c py_truediv_def py_int_def i example_published_def)
       (simp add: example_dataset_def)
qed

theorem dataset_distance_is_sample_over_scale_witness:
  "process_frame example_cv example_processor = Some (Inr example_published) \<and>
   ds_centroids example_dataset = [(1, 1, 1500)] \<and>
   (\<exists>frameset d.
      get_frames (camera example_processor)
        = Some (Inr (frameset, camera example_published)) \<and>
      queue example_published = queue example_processor @ [d] \<and>
      (\<forall>c \<in> set (ds_centroids d). \<exists>sample.
          get_distance (fs_depth_frame frameset) (fst c) (fst (snd c)) = Inr sample \<and>
          depth_scale (camera example_published) \<noteq> 0 \<and>
          snd (snd c) = py_int (sample / depth_scale (camera example_published))))"
proof -
  have a: "process_frame example_cv example_processor = Some (Inr example_published)"
    by (rule example_process_frame)
  have b: "ds_centroids example_dataset = [(1, 1, 1500)]"
    by (simp add: example_dataset_def)
  from dataset_distance_is_sample_over_scale [OF a] a b show ?thesis by blast
qed

subsection \<open>The handoff queue\<close>

lemma get_dataset_cases:
  "get_dataset p =
     (case queue p of
        [] \<Rightarrow> Inr (None, p)
      | d # rest \<Rightarrow> Inr (Some d, p\<lparr>queue := rest\<rparr>))"
  by (simp add: get_dataset_def queue_empty_def queue_get_nowait_def split: list.split)

lemma handoff_run_conserves:
  "\<exists>taken p'. handoff_run ops p = Inr (taken, p') \<and>
     length (queue p') + length (filter (\<lambda>t. t \<noteq> None) taken)
       = length (queue p) + length (filter is_publish ops)"
proof (induction ops p rule: handoff_run.induct)
  case (1 p)
  then show ?case by simp
next
  case (2 d ops p)
  then show ?case by (auto simp: publish_def queue_put_def)
next
  case (3 ops p)
  show ?case
  proof (cases "queue p")
    case Nil
    with 3 [of "(None, p)" None p] show ?thesis
      by (auto simp: get_dataset_cases)
  next
    case (Cons d rest)
    with 3 [of "(Some d, p\<lparr>queue := rest\<rparr>)" "Some d" "p\<lparr>queue := rest\<rparr>"] show ?thesis
      by (auto simp: get_dataset_cases)
  qed
qed

lemma handoff_run_publishes:
  "handoff_run (map Publish ds) p = Inr ([], p\<lparr>queue := queue p @ ds\<rparr>)"
  by (induction ds arbitrary: p) (simp_all add: publish_def queue_put_def)

text \<open>
  C1, as the code has it. The handoff is a first-in first-out queue: after publishing
  \<open>a\<close> and then \<open>b\<close> into an empty queue, the next \<^verbatim>\<open>get_dataset\<close> returns \<open>a\<close> and
  leaves \<open>b\<close> queued, and the take after that returns \<open>b\<close>. Nothing is overwritten.
\<close>

theorem handoff_is_fifo:
  "get_dataset (publish (publish (p\<lparr>queue := []\<rparr>) a) b)
     = Inr (Some a, publish (p\<lparr>queue := []\<rparr>) b) \<and>
   get_dataset (publish (p\<lparr>queue := []\<rparr>) b) = Inr (Some b, p\<lparr>queue := []\<rparr>)"
  by (simp add: get_dataset_cases publish_def queue_put_def)

text \<open>
  C1 as stated fails: after publishing \<open>dataset_A\<close> and then \<open>dataset_B\<close>, the next
  take retrieves \<open>dataset_A\<close>, which differs from \<open>dataset_B\<close>.
\<close>

theorem handoff_drop_old_counterexample:
  "get_dataset (publish (publish example_processor dataset_A) dataset_B)
     = Inr (Some dataset_A, publish example_processor dataset_B)
   \<and> dataset_A \<noteq> dataset_B"
  by (simp add: get_dataset_cases publish_def queue_put_def example_processor_def
        dataset_A_def dataset_B_def)

text \<open>
  C2, as the code has it. Every sequence of publish and take operations runs without
  an exception, and no dataset is ever dropped: the number of datasets still queued
  plus the number of takes that returned one equals the number queued at the start
  plus the number of publishes. In particular \<open>n\<close> publishes without a take leave \<open>n\<close>
  more datasets queued.
\<close>

theorem handoff_conserves_datasets:
  "(\<exists>taken p'. handoff_run ops p = Inr (taken, p') \<and>
      length (queue p') + length (filter (\<lambda>t. t \<noteq> None) taken)
        = length (queue p) + length (filter is_publish ops)) \<and>
   handoff_run (map Publish ds) p = Inr ([], p\<lparr>queue := queue p @ ds\<rparr>)"
  using handoff_run_conserves [of ops p] handoff_run_publishes [of ds p] by simp

text \<open>C2 as stated fails: two publishes without a take leave two datasets buffered.\<close>

theorem handoff_two_buffered_counterexample:
  "length (queue (publish (publish example_processor dataset_A) dataset_B)) = 2"
  by (simp add: publish_def queue_put_def example_processor_def)

text \<open>
  C7, as the code has it. \<^verbatim>\<open>get_dataset\<close> never raises. On an empty queue it returns
  \<open>None\<close> and changes nothing; on a queue that is not empty it returns the oldest dataset
  and removes that one only, so the queue is empty afterwards exactly when it held a
  single dataset.
\<close>

theorem get_dataset_none_or_oldest:
  "get_dataset (p\<lparr>queue := []\<rparr>) = Inr (None, p\<lparr>queue := []\<rparr>) \<and>
   get_dataset (p\<lparr>queue := d # rest\<rparr>) = Inr (Some d, p\<lparr>queue := rest\<rparr>) \<and>
   get_dataset (p\<lparr>queue := [d]\<rparr>) = Inr (Some d, p\<lparr>queue := []\<rparr>)"
  by (simp add: get_dataset_cases)

text \<open>
  C7 as stated fails on a queue that holds two datasets: the take returns the older
  one and the queue is not cleared.
\<close>

theorem get_dataset_not_cleared_counterexample:
  "get_dataset (example_processor\<lparr>queue := [dataset_A, dataset_B]\<rparr>)
     = Inr (Some dataset_A, example_processor\<lparr>queue := [dataset_B]\<rparr>)
   \<and> queue (example_processor\<lparr>queue := [dataset_B]\<rparr>) \<noteq> []"
  by (simp add: get_dataset_cases)

subsection \<open>Shutdown of the processor thread\<close>

lemma stop_inv_fire: "stop_inv w \<Longrightarrow> fire e w = Some w' \<Longrightarrow> stop_inv w'"
  by (cases e) (auto simp: stop_inv_def split: if_splits thread_pc.splits)

lemma stop_inv_exec: "stop_inv w \<Longrightarrow> exec evs w = Some w' \<Longrightarrow> stop_inv w'"
proof (induction evs arbitrary: w)
  case Nil
  then show ?case by simp
next
  case (Cons e evs)
  then show ?case
    by (auto split: option.splits dest: stop_inv_fire)
qed

lemma terminated_fire:
  "thread w = T_terminated \<Longrightarrow> fire e w = Some w' \<Longrightarrow>
   thread w' = T_terminated \<and> get_frames_calls w' = get_frames_calls w
     \<and> segmentation_calls w' = segmentation_calls w"
  by (cases e) (auto split: if_splits)

lemma terminated_exec:
  "thread w = T_terminated \<Longrightarrow> exec evs w = Some w' \<Longrightarrow>
   thread w' = T_terminated \<and> get_frames_calls w' = get_frames_calls w
     \<and> segmentation_calls w' = segmentation_calls w"
proof (induction evs arbitrary: w)
  case Nil
  then show ?case by simp
next
  case (Cons e evs)
  from Cons.prems obtain w1 where f: "fire e w = Some w1" and r: "exec evs w1 = Some w'"
    by (auto split: option.splits)
  from terminated_fire [OF Cons.prems(1) f] Cons.IH [OF _ r] show ?case by simp
qed

text \<open>
  C3. In every interleaving of the processor thread with the main thread, a state in
  which \<^verbatim>\<open>stop\<close> has returned has the thread terminated, and whatever happens
  afterwards the thread stays terminated and the numbers of calls to
  \<^verbatim>\<open>camera.get_frames\<close> and to \<^verbatim>\<open>segmentation.process\<close> no longer change.
\<close>

theorem stop_returned_thread_terminated:
  "exec before initial_world = Some w \<Longrightarrow> stopper w = S_returned \<Longrightarrow>
   exec after w = Some w' \<Longrightarrow>
   thread w = T_terminated \<and> thread w' = T_terminated \<and>
   get_frames_calls w' = get_frames_calls w \<and>
   segmentation_calls w' = segmentation_calls w"
proof -
  assume a: "exec before initial_world = Some w" and s: "stopper w = S_returned"
    and b: "exec after w = Some w'"
  have "stop_inv initial_world" by (simp add: stop_inv_def initial_world_def)
  from stop_inv_exec [OF this a] s have t: "thread w = T_terminated"
    by (simp add: stop_inv_def)
  from terminated_exec [OF t b] t show ?thesis by simp
qed

theorem stop_returned_thread_terminated_witness:
  "exec example_schedule initial_world = Some example_stopped \<and>
   stopper example_stopped = S_returned \<and>
   exec [Stop_set_flag] example_stopped = Some (example_stopped\<lparr>stopper := S_joining\<rparr>) \<and>
   thread example_stopped = T_terminated \<and>
   thread (example_stopped\<lparr>stopper := S_joining\<rparr>) = T_terminated \<and>
   get_frames_calls (example_stopped\<lparr>stopper := S_joining\<rparr>) = 1 \<and>
   segmentation_calls (example_stopped\<lparr>stopper := S_joining\<rparr>) = 1"
proof -
  have a: "exec example_schedule initial_world = Some example_stopped"
    by (simp add: example_schedule_def initial_world_def example_stopped_def)
  have s: "stopper example_stopped = S_returned"
    by (simp add: example_stopped_def)
  have b: "exec [Stop_set_flag] example_stopped
             = Some (example_stopped\<lparr>stopper := S_joining\<rparr>)"
    by (simp add: example_stopped_def)
  have c: "get_frames_calls example_stopped = 1" "segmentation_calls example_stopped = 1"
    by (simp_all add: example_stopped_def)
  from stop_returned_thread_terminated [OF a s b] a s b c show ?thesis by simp
qed

end
